theory Spec2Isabelle
  imports Main
begin

section \<open>Python values: exceptions and string formatting\<close>

text \<open>
  The module \<^verbatim>\<open>src/common/utility.py\<close> builds SQL text from NumPy arrays and sends it
  through the psycopg driver. Every \<^verbatim>\<open>raise\<close> and failed \<^verbatim>\<open>assert\<close> of the module, and
  every exception of the libraries it calls, is a value of \<open>exn\<close>; a function that can
  raise returns \<open>exn + 'a\<close> with \<open>Inl\<close> the exception.
  \<open>TypeError\<close> stands for NumPy's \<^verbatim>\<open>UFuncTypeError\<close> (a subclass of \<^verbatim>\<open>TypeError\<close>) and for
  Python's own \<^verbatim>\<open>TypeError\<close>; \<open>DriverError\<close> is whatever psycopg raises.
\<close>

datatype exn =
    AssertionError string
  | TypeError
  | ValueError string
  | IndexError
  | DriverError string

definition digit :: "nat \<Rightarrow> char" where
  "digit d = ''0123456789'' ! d"

text \<open>\<^verbatim>\<open>str(n)\<close> of a non-negative Python int: its decimal digits.\<close>

fun str_nat :: "nat \<Rightarrow> string" where
  "str_nat n = (if n < 10 then [digit n] else str_nat (n div 10) @ [digit (n mod 10)])"

declare str_nat.simps [simp del]

definition str_int :: "int \<Rightarrow> string" where
  "str_int i = (if i < 0 then CHR ''-'' # str_nat (nat (- i)) else str_nat (nat i))"

text \<open>\<^verbatim>\<open>sep.join(items)\<close> on a sequence of Python strings.\<close>

fun join :: "string \<Rightarrow> string list \<Rightarrow> string" where
  "join sep [] = []"
| "join sep [x] = x"
| "join sep (x # y # ys) = x @ sep @ join sep (y # ys)"

text \<open>
  \<^verbatim>\<open>str(t)\<close> of a tuple of ints, as the f-string \<^verbatim>\<open>{data.shape}\<close> renders it:
  \<^verbatim>\<open>()\<close>, \<^verbatim>\<open>(3,)\<close>, \<^verbatim>\<open>(2, 3)\<close>.
\<close>

definition str_tuple :: "nat list \<Rightarrow> string" where
  "str_tuple xs =
     (case xs of
        [x] \<Rightarrow> ''('' @ str_nat x @ '',)''
      | _ \<Rightarrow> ''('' @ join '', '' (map str_nat xs) @ '')'')"

section \<open>NumPy arrays\<close>

text \<open>
  An \<^verbatim>\<open>np.ndarray\<close> is its shape, its dtype and its elements in row-major (C) order.
  The element kinds modelled are Python/NumPy integers, strings, booleans and \<^verbatim>\<open>None\<close>;
  \<open>object\<close> arrays hold any of them. Floating-point elements are not modelled:
  \<open>float64\<close> occurs only as the dtype NumPy gives to an array built from no elements.
\<close>

datatype scalar = IntS int | StrS string | BoolS bool | NoneS

datatype dtype = int64 | unicode | bool8 | object | float64

record ndarray =
  shape :: "nat list"
  dtype :: dtype
  buf :: "scalar list"



fun is_str :: "scalar \<Rightarrow> bool" where
  "is_str (StrS s) = True"
| "is_str x = False"

fun un_str :: "scalar \<Rightarrow> string" where
  "un_str (StrS s) = s"
| "un_str x = []"

text \<open>\<^verbatim>\<open>str(x)\<close> of one element, which is what \<^verbatim>\<open>astype(str)\<close> stores for it.\<close>

fun str_of :: "scalar \<Rightarrow> string" where
  "str_of (IntS i) = str_int i"
| "str_of (StrS s) = s"
| "str_of (BoolS b) = (if b then ''True'' else ''False'')"
| "str_of NoneS = ''None''"

definition astype_str :: "ndarray \<Rightarrow> ndarray" where
  "astype_str a = a\<lparr>dtype := unicode, buf := map (\<lambda>x. StrS (str_of x)) (buf a)\<rparr>"

text \<open>
  \<^verbatim>\<open>s + a\<close> and \<^verbatim>\<open>a + s\<close> for a Python string \<open>s\<close> and an array \<open>a\<close>: the \<^verbatim>\<open>add\<close> ufunc.
  It has a loop for string arrays, and on \<open>object\<close> arrays it applies Python's \<^verbatim>\<open>+\<close>
  to each element, which raises \<^verbatim>\<open>TypeError\<close> at the first element that is not a string.
  For every other dtype no loop matches and the ufunc raises before it looks at any element.
\<close>

definition str_radd :: "string \<Rightarrow> ndarray \<Rightarrow> exn + ndarray" where
  "str_radd s a =
     (if dtype a = unicode \<or> dtype a = object then
        (if list_all is_str (buf a)
         then Inr (a\<lparr>buf := map (\<lambda>x. StrS (s @ un_str x)) (buf a)\<rparr>)
         else Inl TypeError)
      else Inl TypeError)"

definition str_add :: "ndarray \<Rightarrow> string \<Rightarrow> exn + ndarray" where
  "str_add a s =
     (if dtype a = unicode \<or> dtype a = object then
        (if list_all is_str (buf a)
         then Inr (a\<lparr>buf := map (\<lambda>x. StrS (un_str x @ s)) (buf a)\<rparr>)
         else Inl TypeError)
      else Inl TypeError)"

text \<open>
  Iterating a 2-dimensional array yields its rows, each a 1-dimensional array, given here
  by its elements. The module iterates 2-dimensional arrays only.
\<close>

definition iter_rows :: "ndarray \<Rightarrow> scalar list list" where
  "iter_rows a =
     (case shape a of
        [r, c] \<Rightarrow> map (\<lambda>i. take c (drop (i * c) (buf a))) [0..<r]
      | _ \<Rightarrow> [])"

text \<open>
  \<^verbatim>\<open>sep.join(x)\<close> on a row of NumPy scalars: Python raises \<^verbatim>\<open>TypeError\<close> at an item that
  is not a \<^verbatim>\<open>str\<close> (\<^verbatim>\<open>np.str_\<close> is one).
\<close>

definition py_join :: "string \<Rightarrow> scalar list \<Rightarrow> exn + string" where
  "py_join sep xs = (if list_all is_str xs then Inr (join sep (map un_str xs)) else Inl TypeError)"

section \<open>The value-list formatter\<close>

definition dim_msg :: "ndarray \<Rightarrow> string" where
  "dim_msg data =
     ''Data must be 2-dimensional. Given: '' @ str_tuple (shape data) @ '' (''
       @ str_nat (length (shape data)) @ ''-dimensional)''"

text \<open>
  \<^verbatim>\<open>map(lambda x: "(" + ", ".join(x) + ")", rows)\<close>, consumed from left to right by the
  outer \<^verbatim>\<open>join\<close>.
\<close>

fun wrap_rows :: "scalar list list \<Rightarrow> exn + string list" where
  "wrap_rows [] = Inr []"
| "wrap_rows (x # xs) =
     (case py_join '', '' x of
        Inl e \<Rightarrow> Inl e
      | Inr s \<Rightarrow>
          (case wrap_rows xs of
             Inl e \<Rightarrow> Inl e
           | Inr ss \<Rightarrow> Inr ((''('' @ s @ '')'') # ss)))"

text \<open>\<^verbatim>\<open>"'" + data + "'"\<close>, evaluated left to right.\<close>

definition quote_array :: "ndarray \<Rightarrow> exn + ndarray" where
  "quote_array data =
     (case str_radd [CHR 0x27] data of
        Inl e \<Rightarrow> Inl e
      | Inr d \<Rightarrow> str_add d [CHR 0x27])"

text \<open>
  \<^verbatim>\<open>_prepare_for_insert(data, string_array)\<close> (an Isabelle name cannot start with an
  underscore). \<^verbatim>\<open>copy()\<close> is the identity on values.
\<close>

definition prepare_for_insert :: "ndarray \<Rightarrow> bool \<Rightarrow> exn + string" where
  "prepare_for_insert data string_array =
     (if length (shape data) \<noteq> 2 then Inl (AssertionError (dim_msg data))
      else
        (case (if string_array then quote_array data else Inr data) of
           Inl e \<Rightarrow> Inl e
         | Inr data' \<Rightarrow>
             (case wrap_rows (iter_rows (astype_str data')) of
                Inl e \<Rightarrow> Inl e
              | Inr groups \<Rightarrow> Inr (join '', '' groups))))"

section \<open>More of NumPy: building, slicing and joining arrays\<close>

fun is_int :: "scalar \<Rightarrow> bool" where
  "is_int (IntS i) = True"
| "is_int x = False"

text \<open>
  The dtype \<^verbatim>\<open>np.array\<close> infers for a sequence of Python values: \<^verbatim>\<open>float64\<close> for none at
  all, \<^verbatim>\<open>object\<close> once a \<^verbatim>\<open>None\<close> is among them, a string dtype once a string is, and
  otherwise the integer dtype unless all are booleans. \<open>cast\<close> converts one value to the
  inferred dtype.
\<close>

definition infer_dtype :: "scalar list \<Rightarrow> dtype" where
  "infer_dtype xs =
     (if xs = [] then float64
      else if NoneS \<in> set xs then object
      else if list_ex is_str xs then unicode
      else if list_ex is_int xs then int64
      else bool8)"

fun cast :: "dtype \<Rightarrow> scalar \<Rightarrow> scalar" where
  "cast unicode x = StrS (str_of x)"
| "cast int64 (BoolS b) = IntS (if b then 1 else 0)"
| "cast d x = x"

text \<open>
  \<^verbatim>\<open>np.array(res.fetchall())\<close> on the rows of a result set, a list of tuples with one cell
  per result column (so all of one length): an empty list gives the 1-dimensional array
  of shape \<^verbatim>\<open>(0,)\<close>, \<open>n\<close> rows of \<open>k\<close> cells give shape \<^verbatim>\<open>(n, k)\<close>.
\<close>

definition np_array :: "scalar list list \<Rightarrow> ndarray" where
  "np_array rows =
     (case rows of
        [] \<Rightarrow> \<lparr>shape = [0], dtype = float64, buf = []\<rparr>
      | r # rs \<Rightarrow>
          (let d = infer_dtype (concat rows)
           in \<lparr>shape = [length rows, length r], dtype = d, buf = map (cast d) (concat rows)\<rparr>))"

definition flatten :: "ndarray \<Rightarrow> ndarray" where
  "flatten a = a\<lparr>shape := [prod_list (shape a)]\<rparr>"

text \<open>\<^verbatim>\<open>len(a)\<close>; the module applies it to flattened, hence 1-dimensional, arrays only.\<close>

definition len :: "ndarray \<Rightarrow> nat" where
  "len a = (case shape a of [] \<Rightarrow> 0 | n # ns \<Rightarrow> n)"

text \<open>\<^verbatim>\<open>a[:k]\<close>: the first \<open>k\<close> items along the first axis, fewer when there are fewer.\<close>

definition take_rows :: "nat \<Rightarrow> ndarray \<Rightarrow> ndarray" where
  "take_rows k a =
     (case shape a of
        [] \<Rightarrow> a
      | r # rest \<Rightarrow> a\<lparr>shape := min k r # rest, buf := take (min k r * prod_list rest) (buf a)\<rparr>)"

definition np_full :: "nat list \<Rightarrow> string \<Rightarrow> ndarray" where
  "np_full shp s = \<lparr>shape = shp, dtype = unicode, buf = replicate (prod_list shp) (StrS s)\<rparr>"

text \<open>
  \<^verbatim>\<open>np.concat([a, b], axis=0)\<close>. The module calls it on two string arrays, so the
  result keeps the dtype of the first.
\<close>

definition np_concat :: "ndarray \<Rightarrow> ndarray \<Rightarrow> exn + ndarray" where
  "np_concat a b =
     (case (shape a, shape b) of
        (ra # sa, rb # sb) \<Rightarrow>
          (if sa = sb then Inr \<lparr>shape = (ra + rb) # sa, dtype = dtype a, buf = buf a @ buf b\<rparr>
           else Inl (ValueError ''all the input array dimensions except for the concatenation axis must match exactly''))
      | _ \<Rightarrow> Inl (ValueError ''zero-dimensional arrays cannot be concatenated''))"

text \<open>
  \<^verbatim>\<open>a[..., 0]\<close>: index 0 along the last axis. It raises \<^verbatim>\<open>IndexError\<close> on a
  0-dimensional array and when the last axis has size 0.
\<close>

definition index_last0 :: "ndarray \<Rightarrow> exn + ndarray" where
  "index_last0 a =
     (case shape a of
        [] \<Rightarrow> Inl IndexError
      | n # ns \<Rightarrow>
          (let c = last (shape a); outer = butlast (shape a)
           in if c = 0 then Inl IndexError
              else Inr \<lparr>shape = outer, dtype = dtype a,
                        buf = map (\<lambda>i. buf a ! (i * c)) [0..<prod_list outer]\<rparr>))"

text \<open>\<^verbatim>\<open>a[0]\<close> on a 1-dimensional array.\<close>

definition item0 :: "ndarray \<Rightarrow> exn + scalar" where
  "item0 a = (case buf a of [] \<Rightarrow> Inl IndexError | x # xs \<Rightarrow> Inr x)"

section \<open>The database driver and the outside world\<close>

text \<open>
  What a call does to the outside is recorded in the \<open>world\<close>: the driver calls in the
  order they happen, and the text written to standard output. The database server is a
  parameter: \<open>connect\<close> tells whether \<^verbatim>\<open>psycopg.connect\<close> raises for a connection
  string, \<open>answer\<close> gives for a statement text either the exception \<^verbatim>\<open>execute\<close> raises or
  the rows \<^verbatim>\<open>fetchall\<close> returns. No call of the module issues a statement after one
  that writes, so within a call the answers do not depend on the earlier statements.
\<close>

datatype event = Connect string | Execute string | Commit | Rollback | Close

record world =
  trace :: "event list"
  stdout :: string

record server =
  connect :: "string \<Rightarrow> exn option"
  answer :: "string \<Rightarrow> exn + scalar list list"

text \<open>
  \<^verbatim>\<open>with psycopg.connect(conn_str) as conn: body\<close>. Leaving the block commits, or after
  an exception rolls back, and closes the connection.
\<close>

definition with_connection ::
  "server \<Rightarrow> string \<Rightarrow> (world \<Rightarrow> (exn + 'a) \<times> world) \<Rightarrow> world \<Rightarrow> (exn + 'a) \<times> world" where
  "with_connection srv conn_str body w =
     (let w1 = w\<lparr>trace := trace w @ [Connect conn_str]\<rparr>
      in case connect srv conn_str of
           Some e \<Rightarrow> (Inl e, w1)
         | None \<Rightarrow>
             (case body w1 of
                (Inl e, w2) \<Rightarrow> (Inl e, w2\<lparr>trace := trace w2 @ [Rollback, Close]\<rparr>)
              | (Inr v, w2) \<Rightarrow> (Inr v, w2\<lparr>trace := trace w2 @ [Commit, Close]\<rparr>)))"

text \<open>\<^verbatim>\<open>conn.execute(sql)\<close>; the cursor it returns is given by the rows it will fetch.\<close>

definition conn_execute :: "server \<Rightarrow> string \<Rightarrow> world \<Rightarrow> (exn + scalar list list) \<times> world" where
  "conn_execute srv sql w = (answer srv sql, w\<lparr>trace := trace w @ [Execute sql]\<rparr>)"

text \<open>\<^verbatim>\<open>print(text)\<close>.\<close>

definition print :: "string \<Rightarrow> world \<Rightarrow> world" where
  "print text w = w\<lparr>stdout := stdout w @ text @ ''\<newline>''\<rparr>"

section \<open>The insert executor\<close>

definition insert_sql :: "string \<Rightarrow> string \<Rightarrow> string" where
  "insert_sql table insert_values = ''INSERT INTO '' @ table @ '' VALUES '' @ insert_values"

definition insert_into_db ::
  "server \<Rightarrow> string \<Rightarrow> string \<Rightarrow> ndarray \<Rightarrow> bool \<Rightarrow> world \<Rightarrow> (exn + unit) \<times> world" where
  "insert_into_db srv conn_str table data string_array w =
     (if length (shape data) \<noteq> 2 then (Inl (AssertionError (dim_msg data)), w)
      else
        (case prepare_for_insert data string_array of
           Inl e \<Rightarrow> (Inl e, w)
         | Inr insert_values \<Rightarrow>
             with_connection srv conn_str
               (\<lambda>w1. case conn_execute srv (insert_sql table insert_values) w1 of
                        (Inl e, w2) \<Rightarrow> (Inl e, w2)
                      | (Inr res, w2) \<Rightarrow> (Inr (), w2))
               w))"

section \<open>The dry-run validator\<close>

definition columns_sql :: "string \<Rightarrow> string" where
  "columns_sql table =
     ''SELECT column_name FROM information_schema.columns WHERE table_name = ''
       @ [CHR 0x27] @ table @ [CHR 0x27] @ '';''"

definition missing_msg :: "string \<Rightarrow> string" where
  "missing_msg table = ''The table '' @ [CHR 0x27] @ table @ [CHR 0x27] @ '' does not exist''"

definition mismatch_msg :: "nat \<Rightarrow> nat \<Rightarrow> string" where
  "mismatch_msg n c =
     ''Number of columns ('' @ str_nat n
       @ '') does not match the number of columns in data ('' @ str_nat c @ '')''"

text \<open>
  The text-table formatter \<^verbatim>\<open>tabulate(rows, headers=..., tablefmt="pipe")\<close> belongs to a
  library and is a parameter \<open>tabulate\<close> of the functions that call it: it receives the
  array of rows and the header names (it renders each header with \<^verbatim>\<open>str\<close>).
\<close>

definition dry_insert_into_db ::
  "(ndarray \<Rightarrow> string list \<Rightarrow> string) \<Rightarrow> server \<Rightarrow> string \<Rightarrow> string \<Rightarrow> ndarray \<Rightarrow> world
     \<Rightarrow> (exn + unit) \<times> world" where
  "dry_insert_into_db tabulate srv conn_str table data w =
     (if length (shape data) \<noteq> 2 then (Inl (AssertionError (dim_msg data)), w)
      else
        (case with_connection srv conn_str (conn_execute srv (columns_sql table)) w of
           (Inl e, w1) \<Rightarrow> (Inl e, w1)
         | (Inr res, w1) \<Rightarrow>
             (let cols = flatten (np_array res)
              in if len cols = 0 then (Inl (ValueError (missing_msg table)), w1)
                 else if len cols \<noteq> shape data ! 1
                 then (Inl (ValueError (mismatch_msg (len cols) (shape data ! 1))), w1)
                 else
                   (case np_concat (take_rows 3 (astype_str data)) (np_full [1, len cols] ''...'') of
                      Inl e \<Rightarrow> (Inl e, w1)
                    | Inr string \<Rightarrow>
                        (Inr (),
                         print (''Insert values into '' @ table @ '':\<newline>''
                                  @ tabulate string (map str_of (buf cols)) @ ''\<newline>\<newline>''
                                  @ ''Insertion shape is valid.'') w1)))))"

section \<open>The table describer\<close>

definition schema_sql :: "string \<Rightarrow> string" where
  "schema_sql table =
     ''\<newline>            SELECT \<newline>               column_name, \<newline>               data_type,\<newline>               is_nullable\<newline>            FROM\<newline>               information_schema.columns\<newline>            WHERE\<newline>               table_name = ''
       @ [CHR 0x27] @ table @ [CHR 0x27] @ '';\<newline>        ''"

definition count_sql :: "string \<Rightarrow> string" where
  "count_sql table = ''SELECT COUNT(*) FROM '' @ [CHR 0x22] @ table @ [CHR 0x22]"

definition first_last_sql :: "string \<Rightarrow> string \<Rightarrow> string" where
  "first_last_sql table order_column =
     ''\<newline>            (SELECT \<newline>                *\<newline>            FROM '' @ [CHR 0x22] @ table @ [CHR 0x22]
       @ ''\<newline>            ORDER BY '' @ [CHR 0x22] @ order_column @ [CHR 0x22]
       @ '' ASC\<newline>            LIMIT 1)\<newline>        \<newline>            UNION ALL\<newline>        \<newline>            (SELECT \<newline>                *\<newline>            FROM ''
       @ [CHR 0x22] @ table @ [CHR 0x22]
       @ ''\<newline>            ORDER BY '' @ [CHR 0x22] @ order_column @ [CHR 0x22]
       @ '' DESC\<newline>            LIMIT 1)\<newline>        ''"

definition report :: "string \<Rightarrow> string \<Rightarrow> scalar \<Rightarrow> string \<Rightarrow> string" where
  "report table table_info enties_count first_last =
     ''Table summary: '' @ table @ ''\<newline>\<newline>''
       @ table_info @ ''\<newline>\<newline>''
       @ ''With '' @ str_of enties_count @ '' entiries\<newline>\<newline>''
       @ ''First & last being:\<newline>''
       @ first_last"

definition describe_table ::
  "(ndarray \<Rightarrow> string list \<Rightarrow> string) \<Rightarrow> server \<Rightarrow> string \<Rightarrow> string \<Rightarrow> string \<Rightarrow> world
     \<Rightarrow> (exn + string) \<times> world" where
  "describe_table tabulate srv conn_str table order_column w =
     with_connection srv conn_str
       (\<lambda>w0.
          case conn_execute srv (schema_sql table) w0 of
            (Inl e, w1) \<Rightarrow> (Inl e, w1)
          | (Inr res1, w1) \<Rightarrow>
              (let arr = np_array res1
               in case index_last0 arr of
                    Inl e \<Rightarrow> (Inl e, w1)
                  | Inr cols \<Rightarrow>
                      (let table_info = tabulate arr [''column_name'', ''data_type'', ''is_nullable'']
                       in case conn_execute srv (count_sql table) w1 of
                            (Inl e, w2) \<Rightarrow> (Inl e, w2)
                          | (Inr res2, w2) \<Rightarrow>
                              (case item0 (flatten (np_array res2)) of
                                 Inl e \<Rightarrow> (Inl e, w2)
                               | Inr enties_count \<Rightarrow>
                                   (case conn_execute srv (first_last_sql table order_column) w2 of
                                      (Inl e, w3) \<Rightarrow> (Inl e, w3)
                                    | (Inr res3, w3) \<Rightarrow>
                                        (let first_last =
                                               tabulate (np_array res3) (map str_of (buf cols))
                                         in (Inr (report table table_info enties_count first_last),
                                             w3)))))))
       w"

section \<open>Notions the claims are stated with\<close>




text \<open>
  What the database answers to the boundary statement of the describer, where \<open>rows\<close> are
  the rows of the table and \<open>key r\<close> is the value of the order column in row \<open>r\<close>:
  \<^verbatim>\<open>ORDER BY ... ASC LIMIT 1\<close> is a row of least key when there is a row at all,
  \<^verbatim>\<open>ORDER BY ... DESC LIMIT 1\<close> one of greatest key, and \<^verbatim>\<open>UNION ALL\<close> appends the two
  results.
\<close>

definition order_asc_limit1 :: "('r \<Rightarrow> int) \<Rightarrow> 'r list \<Rightarrow> 'r list" where
  "order_asc_limit1 key rows =
     (case rows of
        [] \<Rightarrow> []
      | r # rs \<Rightarrow> [foldl (\<lambda>b x. if key x < key b then x else b) r rs])"

definition order_desc_limit1 :: "('r \<Rightarrow> int) \<Rightarrow> 'r list \<Rightarrow> 'r list" where
  "order_desc_limit1 key rows =
     (case rows of
        [] \<Rightarrow> []
      | r # rs \<Rightarrow> [foldl (\<lambda>b x. if key b < key x then x else b) r rs])"

definition first_last_rows :: "('r \<Rightarrow> int) \<Rightarrow> 'r list \<Rightarrow> 'r list" where
  "first_last_rows key rows = order_asc_limit1 key rows @ order_desc_limit1 key rows"

section \<open>A concrete database and formatter for the examples\<close>

text \<open>
  Two simple formatters to run the functions with: \<open>plain_tab\<close> writes the header names
  and then each row on a line of its own, \<open>count_tab\<close> writes only how many rows it was
  given.
\<close>

definition plain_tab :: "ndarray \<Rightarrow> string list \<Rightarrow> string" where
  "plain_tab a headers =
     join ''\<newline>'' (join '' | '' headers # map (\<lambda>row. join '' | '' (map str_of row)) (iter_rows a))"


text \<open>
  A server that holds one table \<^verbatim>\<open>t\<close> with the columns \<^verbatim>\<open>id\<close> (integer) and \<^verbatim>\<open>price\<close> (text)
  and the given rows, accepts every connection, and answers every other statement with
  no rows. The value of the order column \<^verbatim>\<open>id\<close> of a row is its first cell.
\<close>

definition id_key :: "scalar list \<Rightarrow> int" where
  "id_key row = (case row of IntS i # cells \<Rightarrow> i | _ \<Rightarrow> 0)"

definition table_srv :: "scalar list list \<Rightarrow> server" where
  "table_srv rows =
     \<lparr>connect = (\<lambda>conn_str. None),
      answer = (\<lambda>sql.
        if sql = columns_sql ''t'' then Inr [[StrS ''id''], [StrS ''price'']]
        else if sql = schema_sql ''t''
        then Inr [[StrS ''id'', StrS ''integer'', StrS ''NO''],
                  [StrS ''price'', StrS ''text'', StrS ''YES'']]
        else if sql = count_sql ''t'' then Inr [[IntS (int (length rows))]]
        else if sql = first_last_sql ''t'' ''id'' then Inr (first_last_rows id_key rows)
        else Inr [])\<rparr>"

definition demo_rows :: "scalar list list" where
  "demo_rows = [[IntS 2, StrS ''b''], [IntS 1, StrS ''a''], [IntS 3, StrS ''c'']]"

definition w0 :: world where
  "w0 = \<lparr>trace = [], stdout = []\<rparr>"

section \<open>The formatter on the examples of the specification\<close>

text \<open>
  Claim C4. The value-list formatter applied to the array \<^verbatim>\<open>[[1,2],[3,4],[5,6],[7,8]]\<close>
  with the string flag off returns exactly \<^verbatim>\<open>(1, 2), (3, 4), (5, 6), (7, 8)\<close>, and applied
  to the array \<^verbatim>\<open>[["a","b"]]\<close> with the string flag on returns exactly \<^verbatim>\<open>('a', 'b')\<close>
  (the quote character is \<open>CHR 0x27\<close>).
\<close>

theorem formatter_examples:
  "prepare_for_insert
       \<lparr>shape = [4, 2], dtype = int64, buf = map IntS [1, 2, 3, 4, 5, 6, 7, 8]\<rparr> False
     = Inr ''(1, 2), (3, 4), (5, 6), (7, 8)''
   \<and> prepare_for_insert \<lparr>shape = [1, 2], dtype = unicode, buf = [StrS ''a'', StrS ''b'']\<rparr> True
     = Inr (''('' @ [CHR 0x27] @ ''a'' @ [CHR 0x27] @ '', ''
              @ [CHR 0x27] @ ''b'' @ [CHR 0x27] @ '')'')"
  by code_simp

section \<open>Arrays that are not 2-dimensional\<close>

text \<open>
  Claim C5. For every input array whose rank is not 2 (in particular rank 0, 1 or 3) the
  value-list formatter fails with the precondition error, the failed assertion on the
  shape, and so produces no output string.
\<close>

theorem formatter_rejects_rank:
  "length (shape data) \<noteq> 2 \<Longrightarrow>
     prepare_for_insert data string_array = Inl (AssertionError (dim_msg data))"
  by (simp add: prepare_for_insert_def)

theorem formatter_rejects_rank_witness:
  "length (shape \<lparr>shape = [], dtype = int64, buf = [IntS 5]\<rparr>) \<noteq> 2
   \<and> prepare_for_insert \<lparr>shape = [], dtype = int64, buf = [IntS 5]\<rparr> False
       = Inl (AssertionError ''Data must be 2-dimensional. Given: () (0-dimensional)'')
   \<and> length (shape \<lparr>shape = [3], dtype = int64, buf = [IntS 1, IntS 2, IntS 3]\<rparr>) \<noteq> 2
   \<and> prepare_for_insert \<lparr>shape = [3], dtype = int64, buf = [IntS 1, IntS 2, IntS 3]\<rparr> True
       = Inl (AssertionError ''Data must be 2-dimensional. Given: (3,) (1-dimensional)'')
   \<and> length (shape \<lparr>shape = [1, 1, 2], dtype = unicode, buf = [StrS ''a'', StrS ''b'']\<rparr>) \<noteq> 2
   \<and> prepare_for_insert \<lparr>shape = [1, 1, 2], dtype = unicode, buf = [StrS ''a'', StrS ''b'']\<rparr> True
       = Inl (AssertionError ''Data must be 2-dimensional. Given: (1, 1, 2) (3-dimensional)'')"
  using formatter_rejects_rank [of "\<lparr>shape = [], dtype = int64, buf = [IntS 5]\<rparr>" False]
    formatter_rejects_rank [of "\<lparr>shape = [3], dtype = int64, buf = [IntS 1, IntS 2, IntS 3]\<rparr>" True]
    formatter_rejects_rank
      [of "\<lparr>shape = [1, 1, 2], dtype = unicode, buf = [StrS ''a'', StrS ''b'']\<rparr>" True]
  by (simp add: dim_msg_def str_tuple_def str_nat.simps digit_def)

text \<open>
  Claim C7. For every input array of rank other than 2, the insert executor and the
  dry-run validator each fail with the shape precondition error before any database
  interaction: the world is returned as it was, with no connection attempt and no
  statement added to its trace.
\<close>

theorem rank_rejected_before_database:
  "length (shape data) \<noteq> 2 \<Longrightarrow>
     insert_into_db srv conn_str table data string_array w
       = (Inl (AssertionError (dim_msg data)), w)
     \<and> dry_insert_into_db tabulate srv conn_str table data w
       = (Inl (AssertionError (dim_msg data)), w)"
  by (simp add: insert_into_db_def dry_insert_into_db_def)

theorem rank_rejected_before_database_witness:
  "length (shape \<lparr>shape = [3], dtype = int64, buf = [IntS 1, IntS 2, IntS 3]\<rparr>) \<noteq> 2
   \<and> insert_into_db (table_srv demo_rows) ''db'' ''t''
         \<lparr>shape = [3], dtype = int64, buf = [IntS 1, IntS 2, IntS 3]\<rparr> False w0
       = (Inl (AssertionError ''Data must be 2-dimensional. Given: (3,) (1-dimensional)''),
          \<lparr>trace = [], stdout = []\<rparr>)
   \<and> dry_insert_into_db plain_tab (table_srv demo_rows) ''db'' ''t''
         \<lparr>shape = [3], dtype = int64, buf = [IntS 1, IntS 2, IntS 3]\<rparr> w0
       = (Inl (AssertionError ''Data must be 2-dimensional. Given: (3,) (1-dimensional)''),
          \<lparr>trace = [], stdout = []\<rparr>)"
  using rank_rejected_before_database
      [of "\<lparr>shape = [3], dtype = int64, buf = [IntS 1, IntS 2, IntS 3]\<rparr>"
          "table_srv demo_rows" "''db''" "''t''" False w0 plain_tab]
  by (simp add: dim_msg_def str_tuple_def str_nat.simps digit_def w0_def)

section \<open>The dry-run validator and the describer on a table that does not exist\<close>

lemma np_array_Nil: "np_array [] = \<lparr>shape = [0], dtype = float64, buf = []\<rparr>"
  by (simp add: np_array_def)

text \<open>
  Claim C2. For every 2-dimensional array and every table name for which the
  schema-metadata query returns zero columns, the dry-run validator fails with the
  "table does not exist" error. This holds whatever the shape of the array, also when it
  has zero columns itself, so the failure comes before the column counts are compared.
  One connection was opened, the metadata statement was the only one executed.
\<close>

theorem dry_run_missing_table:
  assumes "length (shape data) = 2"
    and "connect srv conn_str = None"
    and "answer srv (columns_sql table) = Inr []"
  shows "dry_insert_into_db tabulate srv conn_str table data w
           = (Inl (ValueError (missing_msg table)),
              w\<lparr>trace := trace w @ [Connect conn_str, Execute (columns_sql table), Commit, Close]\<rparr>)"
  using assms
  by (simp add: dry_insert_into_db_def with_connection_def conn_execute_def np_array_Nil
      flatten_def len_def)

theorem dry_run_missing_table_witness:
  "length (shape \<lparr>shape = [2, 0], dtype = float64, buf = []\<rparr>) = 2
   \<and> connect (table_srv demo_rows) ''db'' = None
   \<and> answer (table_srv demo_rows) (columns_sql ''u'') = Inr []
   \<and> dry_insert_into_db plain_tab (table_srv demo_rows) ''db'' ''u''
         \<lparr>shape = [2, 0], dtype = float64, buf = []\<rparr> w0
       = (Inl (ValueError (''The table '' @ [CHR 0x27] @ ''u'' @ [CHR 0x27] @ '' does not exist'')),
          \<lparr>trace = [Connect ''db'', Execute (columns_sql ''u''), Commit, Close], stdout = []\<rparr>)"
proof -
  have h1: "length (shape \<lparr>shape = [2, 0], dtype = float64, buf = []\<rparr>) = 2" by simp
  have h2: "connect (table_srv demo_rows) ''db'' = None" by (simp add: table_srv_def)
  have h3: "answer (table_srv demo_rows) (columns_sql ''u'') = Inr []"
    by (simp add: table_srv_def columns_sql_def schema_sql_def count_sql_def first_last_sql_def)
  show ?thesis
    using h1 h2 h3 dry_run_missing_table [OF h1 h2 h3, of plain_tab w0]
    by (simp add: w0_def missing_msg_def)
qed

text \<open>
  Claim C9. For every connection descriptor and table name for which the schema-metadata
  query returns zero rows, the table describer raises an indexing error when it extracts
  the column names from the empty metadata result: the metadata statement is the only
  one executed, so the row-count and boundary-rows statements are never issued, and the
  error is not the "does not exist" failure that the dry-run validator gives.
\<close>

theorem describer_missing_table:
  assumes "connect srv conn_str = None"
    and "answer srv (schema_sql table) = Inr []"
  shows "describe_table tabulate srv conn_str table order_column w
           = (Inl IndexError,
              w\<lparr>trace := trace w @ [Connect conn_str, Execute (schema_sql table), Rollback, Close]\<rparr>)
         \<and> fst (describe_table tabulate srv conn_str table order_column w)
             \<noteq> Inl (ValueError (missing_msg table))"
  using assms
  by (simp add: describe_table_def with_connection_def conn_execute_def np_array_Nil
      index_last0_def)

theorem describer_missing_table_witness:
  "connect (table_srv demo_rows) ''db'' = None
   \<and> answer (table_srv demo_rows) (schema_sql ''u'') = Inr []
   \<and> describe_table plain_tab (table_srv demo_rows) ''db'' ''u'' ''id'' w0
       = (Inl IndexError,
          \<lparr>trace = [Connect ''db'', Execute (schema_sql ''u''), Rollback, Close], stdout = []\<rparr>)"
proof -
  have h1: "connect (table_srv demo_rows) ''db'' = None" by (simp add: table_srv_def)
  have h2: "answer (table_srv demo_rows) (schema_sql ''u'') = Inr []"
    by (simp add: table_srv_def columns_sql_def schema_sql_def count_sql_def first_last_sql_def)
  show ?thesis
    using h1 h2 describer_missing_table [OF h1 h2, of plain_tab "''id''" w0]
    by (simp add: w0_def)
qed

section \<open>The values-list the formatter returns\<close>

















section \<open>The statement the insert executor sends\<close>





section \<open>The answers of the example server\<close>






section \<open>The dry-run validator on an existing table\<close>








section \<open>The report of the table describer\<close>
















end
